theory Spec2Isabelle
  imports Complex_Main "HOL-Library.AList"
begin

section \<open>Python strings and built-ins used by outreach.py\<close>

text \<open>
  A Python \<open>str\<close> is modelled as a \<open>string\<close>. The character classes below are the
  ASCII ones: a character outside ASCII is neither a letter, a digit nor white space here,
  and \<open>py_lower\<close> leaves it as it is.
\<close>

definition ord :: "char \<Rightarrow> int" where
  "ord c = int (of_char c)"

definition upper_letters :: string where
  "upper_letters = ''ABCDEFGHIJKLMNOPQRSTUVWXYZ''"

definition lower_letters :: string where
  "lower_letters = ''abcdefghijklmnopqrstuvwxyz''"

definition digit_chars :: string where
  "digit_chars = ''0123456789''"

definition is_upper :: "char \<Rightarrow> bool" where
  "is_upper c = (c \<in> set upper_letters)"

definition is_lower :: "char \<Rightarrow> bool" where
  "is_lower c = (c \<in> set lower_letters)"

definition is_digit :: "char \<Rightarrow> bool" where
  "is_digit c = (c \<in> set digit_chars)"

text \<open>\<open>str.isspace\<close> on ASCII: TAB, LF, VT, FF, CR, FS, GS, RS, US and the space.\<close>

definition is_space :: "char \<Rightarrow> bool" where
  "is_space c = (of_char c \<in> {9, 10, 11, 12, 13, 28, 29, 30, 31, 32 :: nat})"

definition lower_char :: "char \<Rightarrow> char" where
  "lower_char c = (case map_of (zip upper_letters lower_letters) c of Some d \<Rightarrow> d | None \<Rightarrow> c)"

definition upper_char :: "char \<Rightarrow> char" where
  "upper_char c = (case map_of (zip lower_letters upper_letters) c of Some d \<Rightarrow> d | None \<Rightarrow> c)"

definition py_lower :: "string \<Rightarrow> string" where
  "py_lower s = map lower_char s"

text \<open>\<open>s.strip(chars)\<close>: the characters of the class are removed at both ends.\<close>

definition strip_chars :: "(char \<Rightarrow> bool) \<Rightarrow> string \<Rightarrow> string" where
  "strip_chars p s = rev (dropWhile p (rev (dropWhile p s)))"

definition py_strip :: "string \<Rightarrow> string" where
  "py_strip s = strip_chars is_space s"

text \<open>\<open>a or b\<close> where \<open>a\<close> is \<open>None\<close> or a string: the empty string is falsy.\<close>

fun py_or :: "string option \<Rightarrow> string \<Rightarrow> string" where
  "py_or None d = d"
| "py_or (Some v) d = (if v = [] then d else v)"

datatype error = FileNotFoundError | RuntimeError | ValueError | KeyError

text \<open>
  \<open>int(text)\<close> in base 10: white space around the literal is dropped, one sign is allowed,
  the digits may be grouped by single underscores. Anything else raises \<open>ValueError\<close>,
  which is \<open>None\<close> here.
\<close>

definition digit_val :: "char \<Rightarrow> int" where
  "digit_val c = ord c - 48"

fun int_digits :: "string \<Rightarrow> int \<Rightarrow> int option" where
  "int_digits [] acc = Some acc"
| "int_digits [c] acc = (if is_digit c then Some (acc * 10 + digit_val c) else None)"
| "int_digits (c # d # ds) acc =
     (if is_digit c then int_digits (d # ds) (acc * 10 + digit_val c)
      else if c = CHR ''_'' \<and> is_digit d then int_digits ds (acc * 10 + digit_val d)
      else None)"

definition int_unsigned :: "string \<Rightarrow> int option" where
  "int_unsigned s =
     (case s of [] \<Rightarrow> None
      | d # ds \<Rightarrow> if is_digit d then int_digits ds (digit_val d) else None)"

definition py_int :: "string \<Rightarrow> int option" where
  "py_int s =
     (case py_strip s of [] \<Rightarrow> None
      | c # cs \<Rightarrow>
          if c = CHR ''-'' then map_option uminus (int_unsigned cs)
          else if c = CHR ''+'' then int_unsigned cs
          else int_unsigned (c # cs))"

section \<open>The workbook reader\<close>

text \<open>
  The reader works on parsed XML. A cell element \<open>c\<close> is modelled by what the code reads
  from it: the attributes \<open>r\<close> and \<open>t\<close>, the first child \<open>v\<close> with its text
  (\<open>None\<close>: no such child, \<open>Some None\<close>: a child whose text is \<open>None\<close>), the first
  child \<open>is\<close> with the pieces that \<open>itertext()\<close> yields, and the first child \<open>t\<close>
  with its text.
\<close>

record cell =
  attr_r :: "string option"
  attr_t :: "string option"
  child_v :: "string option option"
  child_is :: "string list option"
  child_t :: "string option option"

text \<open>\<open>cell.findtext(NS + "t", default="")\<close>: the default when no child is found, the
  empty string when the child has no text.\<close>

definition findtext_t :: "cell \<Rightarrow> string" where
  "findtext_t c = (case child_t c of None \<Rightarrow> [] | Some None \<Rightarrow> [] | Some (Some s) \<Rightarrow> s)"

text \<open>\<open>shared_strings[idx] if 0 <= idx < len(shared_strings) else ""\<close>\<close>

definition shared_lookup :: "string list \<Rightarrow> int \<Rightarrow> string" where
  "shared_lookup shared_strings idx =
     (if 0 \<le> idx \<and> idx < int (length shared_strings) then shared_strings ! nat idx else [])"

definition read_cell_value :: "cell \<Rightarrow> string list \<Rightarrow> error + string" where
  "read_cell_value c shared_strings =
     (if attr_t c = Some ''s'' then
        (case child_v c of
           None \<Rightarrow> Inr []
         | Some None \<Rightarrow> Inr []
         | Some (Some text) \<Rightarrow>
             (case py_int text of
                None \<Rightarrow> Inl ValueError
              | Some idx \<Rightarrow> Inr (shared_lookup shared_strings idx)))
      else if attr_t c = Some ''inlineStr'' then
        (case child_is c of None \<Rightarrow> Inr [] | Some pieces \<Rightarrow> Inr (concat pieces))
      else if attr_t c = Some ''b'' then
        Inr (if child_v c = Some (Some ''1'') then ''TRUE'' else ''FALSE'')
      else
        (case child_v c of
           Some (Some text) \<Rightarrow> Inr text
         | _ \<Rightarrow> Inr (py_or (Some (findtext_t c)) [])))"

text \<open>\<open>CELL_REF_PATTERN.match(ref)\<close> for \<open>([A-Z]+)(\d+)\<close>: one or more capital letters at the
  start of the reference, followed at once by a digit; the result is group 1.\<close>

definition cell_ref_match :: "string \<Rightarrow> string option" where
  "cell_ref_match ref =
     (case dropWhile is_upper ref of
        [] \<Rightarrow> None
      | d # _ \<Rightarrow> if takeWhile is_upper ref \<noteq> [] \<and> is_digit d
                 then Some (takeWhile is_upper ref) else None)"

definition column_letters_to_index :: "string \<Rightarrow> int" where
  "column_letters_to_index letters =
     foldl (\<lambda>index char. index * 26 + (ord (upper_char char) - 64)) 0 letters - 1"

text \<open>
  A Python \<open>dict\<close> keeps its keys in insertion order, and an assignment to a key that is
  present replaces the value in place: an association list with \<open>AList.update\<close>.
  \<open>dict_of\<close> is a dict comprehension over the listed pairs.
\<close>

definition dict_get :: "('k \<times> 'v) list \<Rightarrow> 'k \<Rightarrow> 'v \<Rightarrow> 'v" where
  "dict_get d k dflt = (case map_of d k of Some v \<Rightarrow> v | None \<Rightarrow> dflt)"

definition dict_of :: "('k \<times> 'v) list \<Rightarrow> ('k \<times> 'v) list" where
  "dict_of kvs = foldl (\<lambda>d kv. AList.update (fst kv) (snd kv) d) [] kvs"

text \<open>The column of a cell: \<open>None\<close> when the loop over the cells skips it.\<close>

definition cell_column :: "cell \<Rightarrow> int option" where
  "cell_column c =
     (case attr_r c of
        None \<Rightarrow> None
      | Some ref \<Rightarrow> if ref = [] then None
                    else map_option column_letters_to_index (cell_ref_match ref))"

text \<open>The loop over the cells of one row, filling \<open>cells\<close>.\<close>

fun read_row :: "string list \<Rightarrow> cell list \<Rightarrow> (int \<times> string) list \<Rightarrow> error + (int \<times> string) list" where
  "read_row shared [] cells = Inr cells"
| "read_row shared (c # cs) cells =
     (case cell_column c of
        None \<Rightarrow> read_row shared cs cells
      | Some col_index \<Rightarrow>
          (case read_cell_value c shared of
             Inl e \<Rightarrow> Inl e
           | Inr v \<Rightarrow> read_row shared cs (AList.update col_index (py_strip v) cells)))"

definition make_header_map :: "(int \<times> string) list \<Rightarrow> (int \<times> string) list" where
  "make_header_map cells = dict_of (map (\<lambda>idx. (idx, dict_get cells idx [])) (sort (map fst cells)))"

definition make_row_dict :: "(int \<times> string) list \<Rightarrow> (int \<times> string) list \<Rightarrow> (string \<times> string) list" where
  "make_row_dict header_map cells =
     dict_of (map (\<lambda>(idx, name). (name, py_strip (dict_get cells idx [])))
                  (filter (\<lambda>(idx, name). name \<noteq> []) header_map))"

text \<open>The loop over the rows of the sheet. The generator is modelled by the list of the
  rows it yields; an exception raised while a row is read ends the iteration with that
  exception.\<close>

fun iter_rows :: "string list \<Rightarrow> cell list list \<Rightarrow> (int \<times> string) list option
    \<Rightarrow> error + (string \<times> string) list list" where
  "iter_rows shared [] header_map = Inr []"
| "iter_rows shared (row # rows) header_map =
     (case read_row shared row [] of
        Inl e \<Rightarrow> Inl e
      | Inr cells \<Rightarrow>
          if cells = [] then iter_rows shared rows header_map
          else (case header_map of
                  None \<Rightarrow> iter_rows shared rows (Some (make_header_map cells))
                | Some hm \<Rightarrow>
                    if make_row_dict hm cells = [] then iter_rows shared rows header_map
                    else (case iter_rows shared rows header_map of
                            Inl e \<Rightarrow> Inl e
                          | Inr out \<Rightarrow> Inr (make_row_dict hm cells # out))))"

text \<open>
  The archive: \<open>xl/sharedStrings.xml\<close> as the \<open>itertext()\<close> pieces of each \<open>si\<close> element
  (\<open>None\<close>: no such entry), \<open>xl/worksheets/sheet1.xml\<close> as its \<open>sheetData\<close> element, a
  list of rows of cells (\<open>None\<close>: no such entry, \<open>Some None\<close>: no \<open>sheetData\<close>).
  The path that does not exist is the workbook \<open>None\<close>.
\<close>

record workbook =
  shared_strings_xml :: "string list list option"
  sheet1_xml :: "cell list list option option"

definition load_shared_strings :: "workbook \<Rightarrow> string list" where
  "load_shared_strings zf = (case shared_strings_xml zf of None \<Rightarrow> [] | Some sis \<Rightarrow> map concat sis)"

definition iter_sheet_rows :: "workbook option \<Rightarrow> error + (string \<times> string) list list" where
  "iter_sheet_rows workbook_path =
     (case workbook_path of
        None \<Rightarrow> Inl FileNotFoundError
      | Some zf \<Rightarrow>
          (case sheet1_xml zf of
             None \<Rightarrow> Inl RuntimeError
           | Some None \<Rightarrow> Inr []
           | Some (Some rows) \<Rightarrow> iter_rows (load_shared_strings zf) rows None))"

section \<open>The recipient builder\<close>

definition is_slug_char :: "char \<Rightarrow> bool" where
  "is_slug_char c = (is_lower c \<or> is_digit c)"

text \<open>\<open>re.sub(r"[^a-z0-9]+", "_", s)\<close>: every maximal run of other characters becomes one
  underscore.\<close>

function sub_runs :: "string \<Rightarrow> string" where
  "sub_runs [] = []"
| "sub_runs (c # cs) =
     (if is_slug_char c then c # sub_runs cs
      else CHR ''_'' # sub_runs (dropWhile (\<lambda>x. \<not> is_slug_char x) cs))"
  by pat_completeness auto
termination
  by (relation "measure length") (auto simp: le_imp_less_Suc length_dropWhile_le)

definition slugify :: "string \<Rightarrow> string" where
  "slugify text = strip_chars (\<lambda>c. c = CHR ''_'') (sub_runs (py_lower text))"

text \<open>\<open>a or b\<close> where both are \<open>None\<close> or a string.\<close>

fun or_opt :: "string option \<Rightarrow> string option \<Rightarrow> string option" where
  "or_opt None b = b"
| "or_opt (Some v) b = (if v = [] then b else Some v)"

definition fixed_context :: "(string \<times> string) list \<Rightarrow> (string \<times> string) list" where
  "fixed_context row =
     [(''hospital'', py_strip (py_or (map_of row ''Rumah Sakit'') [])),
      (''province'', py_strip (py_or (map_of row ''Provinsi'') [])),
      (''city'', py_strip (py_or (map_of row ''Kab/Kota'') [])),
      (''address'', py_strip (py_or (or_opt (map_of row ''Alamat (List)'')
                                            (map_of row ''Alamat (Profile)'')) [])),
      (''phone'', py_strip (py_or (or_opt (map_of row ''Telepon (List)'')
                                          (map_of row ''Telepon (Profile)'')) [])),
      (''owner'', py_strip (py_or (or_opt (map_of row ''Pemilik (List)'')
                                          (map_of row ''Kepemilikan'')) [])),
      (''director'', py_strip (py_or (map_of row ''Direktur'') [])),
      (''email'', py_strip (py_or (map_of row ''Email Perusahaan'') []))]"

text \<open>The body of the loop over \<open>row.items()\<close>.\<close>

definition add_slug :: "(string \<times> string) list \<Rightarrow> string \<times> string \<Rightarrow> (string \<times> string) list" where
  "add_slug context kv =
     (if slugify (fst kv) \<noteq> [] \<and> map_of context (slugify (fst kv)) = None
      then AList.update (slugify (fst kv)) (py_strip (py_or (Some (snd kv)) [])) context
      else context)"

definition build_context :: "(string \<times> string) list \<Rightarrow> (string \<times> string) list" where
  "build_context row = foldl add_slug (fixed_context row) row"

definition row_email :: "(string \<times> string) list \<Rightarrow> string" where
  "row_email row = py_strip (py_or (map_of row ''Email Perusahaan'') [])"

text \<open>The loop of \<open>load_recipients\<close> over the rows, with the set \<open>seen\<close> and the list
  \<open>recipients\<close> built so far.\<close>

fun load_loop :: "(string \<times> string) list list \<Rightarrow> string set \<Rightarrow> (string \<times> string) list list
    \<Rightarrow> (string \<times> string) list list" where
  "load_loop [] seen recipients = recipients"
| "load_loop (row # rows) seen recipients =
     (if row_email row = [] \<or> CHR ''@'' \<notin> set (row_email row) then load_loop rows seen recipients
      else if py_lower (row_email row) \<in> seen then load_loop rows seen recipients
      else load_loop rows (insert (py_lower (row_email row)) seen)
                     (recipients @ [build_context row]))"

definition load_recipients :: "workbook option \<Rightarrow> error + (string \<times> string) list list" where
  "load_recipients workbook_path =
     (case iter_sheet_rows workbook_path of
        Inl e \<Rightarrow> Inl e
      | Inr rows \<Rightarrow> Inr (load_loop rows {} []))"


section \<open>The template engine\<close>









section \<open>The sender\<close>
















section \<open>Specification vocabulary\<close>

text \<open>The notions that the properties below are stated with, and the inputs of the examples.\<close>

text \<open>The first of the listed values that is present and not empty.\<close>

fun first_nonempty :: "string option list \<Rightarrow> string" where
  "first_nonempty [] = []"
| "first_nonempty (None # xs) = first_nonempty xs"
| "first_nonempty (Some v # xs) = (if v = [] then first_nonempty xs else v)"

definition slug_items :: "(string \<times> string) list \<Rightarrow> (string \<times> string) list" where
  "slug_items row = map (\<lambda>kv. (slugify (fst kv), py_strip (snd kv))) row"

text \<open>A row has a usable email; the lowercased emails of the usable rows of a list; the
  row at position \<open>i\<close> is usable and the first with its lowercased email.\<close>

definition usable :: "(string \<times> string) list \<Rightarrow> bool" where
  "usable row = (row_email row \<noteq> [] \<and> CHR ''@'' \<in> set (row_email row))"

definition seen_keys :: "(string \<times> string) list list \<Rightarrow> string set" where
  "seen_keys rows = set (map (\<lambda>r. py_lower (row_email r)) (filter usable rows))"

definition first_seen :: "(string \<times> string) list list \<Rightarrow> nat \<Rightarrow> bool" where
  "first_seen rows i =
     (usable (rows ! i) \<and> py_lower (row_email (rows ! i)) \<notin> seen_keys (take i rows))"

text \<open>Cells, sheets and rows of the examples.\<close>

definition text_cell :: "string \<Rightarrow> string \<Rightarrow> cell" where
  "text_cell ref text =
     \<lparr>attr_r = Some ref, attr_t = None, child_v = Some (Some text), child_is = None, child_t = None\<rparr>"

definition example_sheet :: "cell list list" where
  "example_sheet =
     [[text_cell ''A1'' ''Rumah Sakit'', text_cell ''B1'' ''Email Perusahaan''],
      [text_cell ''A2'' ''RS A'', text_cell ''B2'' ''Foo@Bar.com''],
      [],
      [text_cell ''A4'' ''RS B'', text_cell ''B4'' ''foo@bar.com''],
      [text_cell ''A5'' ''RS C'', text_cell ''B5'' ''no-address''],
      [text_cell ''B6'' '' x@y.id '']]"

definition example_workbook :: workbook where
  "example_workbook = \<lparr>shared_strings_xml = None, sheet1_xml = Some (Some example_sheet)\<rparr>"

definition example_rows :: "(string \<times> string) list list" where
  "example_rows =
     [[(''Rumah Sakit'', ''RS A''), (''Email Perusahaan'', ''Foo@Bar.com'')],
      [(''Rumah Sakit'', ''RS B''), (''Email Perusahaan'', ''foo@bar.com'')],
      [(''Rumah Sakit'', ''RS C''), (''Email Perusahaan'', ''no-address'')],
      [(''Rumah Sakit'', []), (''Email Perusahaan'', ''x@y.id'')]]"

definition unseen :: "string set \<Rightarrow> (string \<times> string) list list \<Rightarrow> nat \<Rightarrow> bool" where
  "unseen seen rows i =
     (usable (rows ! i) \<and> py_lower (row_email (rows ! i)) \<notin> seen \<union> seen_keys (take i rows))"




























section \<open>Unfolding the character classes\<close>

lemmas char_class_defs = is_upper_def is_lower_def is_digit_def is_space_def upper_letters_def
  lower_letters_def digit_chars_def lower_char_def upper_char_def

lemmas py_int_defs = py_int_def py_strip_def strip_chars_def int_unsigned_def digit_val_def ord_def

section \<open>Cell values\<close>

text \<open>
  C1. The value of a cell follows its type attribute. For type \<open>s\<close> the text of the value
  element, read as an integer, indexes the shared strings, and an index outside of the
  table (negative, or not below its length) gives the empty string and no error; a
  missing value element gives the empty string too. For type \<open>inlineStr\<close> the value is the
  concatenation of the inline text. For type \<open>b\<close> it is \<open>TRUE\<close> when the value text is
  \<open>1\<close> and \<open>FALSE\<close> otherwise. For every other type, and for no type, it is the raw text
  of the value element, else the text of the plain text element, else the empty string.
\<close>

theorem read_cell_value_dispatch:
  "(attr_t c = Some ''s'' \<and> child_v c = Some (Some text) \<and> py_int text = Some idx \<longrightarrow>
      read_cell_value c shared_strings =
        Inr (if 0 \<le> idx \<and> idx < int (length shared_strings) then shared_strings ! nat idx else []))
   \<and> (attr_t c = Some ''s'' \<and> child_v c = Some (Some text) \<and> py_int text = Some idx
        \<and> (idx < 0 \<or> int (length shared_strings) \<le> idx) \<longrightarrow>
      read_cell_value c shared_strings = Inr [])
   \<and> (attr_t c = Some ''s'' \<and> (child_v c = None \<or> child_v c = Some None) \<longrightarrow>
      read_cell_value c shared_strings = Inr [])
   \<and> (attr_t c = Some ''inlineStr'' \<longrightarrow>
      read_cell_value c shared_strings =
        Inr (case child_is c of None \<Rightarrow> [] | Some pieces \<Rightarrow> concat pieces))
   \<and> (attr_t c = Some ''b'' \<longrightarrow>
      read_cell_value c shared_strings =
        Inr (if child_v c = Some (Some ''1'') then ''TRUE'' else ''FALSE''))
   \<and> (attr_t c \<noteq> Some ''s'' \<and> attr_t c \<noteq> Some ''inlineStr'' \<and> attr_t c \<noteq> Some ''b'' \<longrightarrow>
      read_cell_value c shared_strings =
        Inr (case child_v c of
               Some (Some raw) \<Rightarrow> raw
             | _ \<Rightarrow> (case child_t c of Some (Some plain) \<Rightarrow> plain | _ \<Rightarrow> [])))"
  by (auto simp: read_cell_value_def shared_lookup_def findtext_t_def split: option.splits)

theorem read_cell_value_dispatch_witness:
  "read_cell_value \<lparr>attr_r = Some ''A2'', attr_t = Some ''s'', child_v = Some (Some ''7''),
       child_is = None, child_t = None\<rparr> [''Rumah Sakit'', ''Provinsi''] = Inr []
   \<and> read_cell_value \<lparr>attr_r = Some ''A2'', attr_t = Some ''s'', child_v = Some (Some ''1''),
       child_is = None, child_t = None\<rparr> [''Rumah Sakit'', ''Provinsi''] = Inr ''Provinsi''
   \<and> read_cell_value \<lparr>attr_r = Some ''B2'', attr_t = Some ''inlineStr'', child_v = None,
       child_is = Some [''RS '', ''A''], child_t = None\<rparr> [] = Inr ''RS A''
   \<and> read_cell_value \<lparr>attr_r = Some ''C2'', attr_t = Some ''b'', child_v = Some (Some ''0''),
       child_is = None, child_t = None\<rparr> [] = Inr ''FALSE''
   \<and> read_cell_value \<lparr>attr_r = Some ''D2'', attr_t = None, child_v = Some None,
       child_is = None, child_t = Some (Some ''x'')\<rparr> [] = Inr ''x''"
proof -
  have seven: "py_int ''7'' = Some 7" and one: "py_int ''1'' = Some 1"
    by (simp_all add: py_int_defs char_class_defs)
  show ?thesis
    using read_cell_value_dispatch [of "\<lparr>attr_r = Some ''A2'', attr_t = Some ''s'',
        child_v = Some (Some ''7''), child_is = None, child_t = None\<rparr>" "''7''" 7
        "[''Rumah Sakit'', ''Provinsi'']"]
      read_cell_value_dispatch [of "\<lparr>attr_r = Some ''A2'', attr_t = Some ''s'',
        child_v = Some (Some ''1''), child_is = None, child_t = None\<rparr>" "''1''" 1
        "[''Rumah Sakit'', ''Provinsi'']"]
      read_cell_value_dispatch [of "\<lparr>attr_r = Some ''B2'', attr_t = Some ''inlineStr'',
        child_v = None, child_is = Some [''RS '', ''A''], child_t = None\<rparr>" _ _ "[]"]
      read_cell_value_dispatch [of "\<lparr>attr_r = Some ''C2'', attr_t = Some ''b'',
        child_v = Some (Some ''0''), child_is = None, child_t = None\<rparr>" _ _ "[]"]
      read_cell_value_dispatch [of "\<lparr>attr_r = Some ''D2'', attr_t = None,
        child_v = Some None, child_is = None, child_t = Some (Some ''x'')\<rparr>" _ _ "[]"]
    by (simp add: seven one)
qed

section \<open>The recipient builder: contexts and recipients\<close>

lemma seen_keys_simps:
  "seen_keys [] = {}"
  "seen_keys (row # rows) =
     (if usable row then insert (py_lower (row_email row)) (seen_keys rows) else seen_keys rows)"
  by (simp_all add: seen_keys_def)

lemma add_slug_keeps: "map_of ctx k = Some v \<Longrightarrow> map_of (add_slug ctx kv) k = Some v"
  by (auto simp: add_slug_def update_conv')

lemma map_of_add_slug:
  "map_of (add_slug ctx kv) k =
     (case map_of ctx k of
        Some v \<Rightarrow> Some v
      | None \<Rightarrow> if k \<noteq> [] \<and> k = slugify (fst kv) then Some (py_strip (snd kv)) else None)"
  by (auto simp: add_slug_def update_conv' split: option.splits)

lemma map_of_foldl_add_slug:
  "map_of (foldl add_slug ctx row) k =
     (case map_of ctx k of
        Some v \<Rightarrow> Some v
      | None \<Rightarrow> if k = [] then None else map_of (slug_items row) k)"
proof (induction row arbitrary: ctx)
  case Nil
  show ?case by (simp add: slug_items_def split: option.splits)
next
  case (Cons kv row)
  show ?case
  proof (cases "map_of ctx k")
    case None
    then show ?thesis
      by (auto simp: Cons.IH map_of_add_slug slug_items_def)
  next
    case (Some v)
    then show ?thesis
      by (simp add: Cons.IH add_slug_keeps)
  qed
qed

lemma map_of_build_context:
  "map_of (build_context row) k =
     (case map_of (fixed_context row) k of
        Some v \<Rightarrow> Some v
      | None \<Rightarrow> if k = [] then None else map_of (slug_items row) k)"
  by (simp add: build_context_def map_of_foldl_add_slug)

lemma py_or_first: "py_or a [] = first_nonempty [a]"
  by (cases a) auto

lemma py_or_or_opt: "py_or (or_opt a b) [] = first_nonempty [a, b]"
  by (cases a; cases b) auto

text \<open>
  C8. For every row the context holds all eight fixed fields, each read from its exact
  header names: \<open>first_nonempty\<close> takes the listed headers in order and the first value
  that is present and not empty wins; when all are missing or empty the field is still
  there, with the empty string. The slug keys added afterwards never replace a fixed field.
\<close>

theorem build_context_fixed_fields:
  "map_of (build_context row) ''hospital'' = Some (py_strip (first_nonempty [map_of row ''Rumah Sakit'']))
   \<and> map_of (build_context row) ''province'' = Some (py_strip (first_nonempty [map_of row ''Provinsi'']))
   \<and> map_of (build_context row) ''city'' = Some (py_strip (first_nonempty [map_of row ''Kab/Kota'']))
   \<and> map_of (build_context row) ''address'' =
       Some (py_strip (first_nonempty [map_of row ''Alamat (List)'', map_of row ''Alamat (Profile)'']))
   \<and> map_of (build_context row) ''phone'' =
       Some (py_strip (first_nonempty [map_of row ''Telepon (List)'', map_of row ''Telepon (Profile)'']))
   \<and> map_of (build_context row) ''owner'' =
       Some (py_strip (first_nonempty [map_of row ''Pemilik (List)'', map_of row ''Kepemilikan'']))
   \<and> map_of (build_context row) ''director'' = Some (py_strip (first_nonempty [map_of row ''Direktur'']))
   \<and> map_of (build_context row) ''email'' = Some (py_strip (first_nonempty [map_of row ''Email Perusahaan'']))"
  unfolding map_of_build_context py_or_first [symmetric] py_or_or_opt [symmetric]
  by (simp add: fixed_context_def)

lemma build_context_email: "map_of (build_context row) ''email'' = Some (row_email row)"
  by (simp add: map_of_build_context fixed_context_def row_email_def)

lemma unseen_0: "unseen seen (row # rows) 0 = (usable row \<and> py_lower (row_email row) \<notin> seen)"
  by (simp add: unseen_def seen_keys_simps)

lemma unseen_Suc:
  "unseen seen (row # rows) (Suc i) =
     unseen (if usable row then insert (py_lower (row_email row)) seen else seen) rows i"
  by (auto simp: unseen_def seen_keys_simps)

lemma load_loop_filter:
  "load_loop rows seen recipients =
     recipients @ map (\<lambda>i. build_context (rows ! i)) (filter (unseen seen rows) [0..<length rows])"
proof (induction rows arbitrary: seen recipients)
  case Nil
  show ?case by simp
next
  case (Cons row rows)
  have upt: "[0..<length (row # rows)] = 0 # map Suc [0..<length rows]"
    by (simp add: upt_conv_Cons map_Suc_upt del: upt_Suc)
  have tail: "map (\<lambda>i. build_context ((row # rows) ! i)) (filter (unseen seen (row # rows)) (map Suc is))
      = map (\<lambda>i. build_context (rows ! i))
          (filter (unseen (if usable row then insert (py_lower (row_email row)) seen else seen) rows) is)"
    for "is"
    by (simp add: filter_map comp_def unseen_Suc)
  show ?case
  proof (cases "usable row")
    case False
    then have "row_email row = [] \<or> CHR ''@'' \<notin> set (row_email row)"
      by (simp add: usable_def)
    with False show ?thesis
      unfolding upt by (simp add: Cons.IH tail unseen_0 del: nth_Cons_Suc)
  next
    case True
    then have ok: "\<not> (row_email row = [] \<or> CHR ''@'' \<notin> set (row_email row))"
      by (simp add: usable_def)
    show ?thesis
    proof (cases "py_lower (row_email row) \<in> seen")
      case dup: True
      then have "insert (py_lower (row_email row)) seen = seen"
        by auto
      with True ok dup show ?thesis
        unfolding upt by (simp add: Cons.IH tail unseen_0 del: nth_Cons_Suc)
    next
      case new: False
      with True ok show ?thesis
        unfolding upt by (simp add: Cons.IH tail unseen_0 del: nth_Cons_Suc)
    qed
  qed
qed

lemma load_loop_first_seen:
  "load_loop rows {} [] = map (\<lambda>i. build_context (rows ! i)) (filter (first_seen rows) [0..<length rows])"
proof -
  have "first_seen rows = unseen {} rows"
    by (simp add: first_seen_def unseen_def fun_eq_iff)
  then show ?thesis
    by (simp only: load_loop_filter append_Nil)
qed





text \<open>
  C9. In every context that \<open>load_recipients\<close> returns, \<open>email\<close> is present, not empty
  and holds an \<open>@\<close>; the context of a row whose email is empty or has no \<open>@\<close> is
  never among the recipients.
\<close>

theorem recipient_email_valid:
  assumes "load_recipients workbook_path = Inr recipients"
  shows "(\<forall>ctx \<in> set recipients. \<exists>email. map_of ctx ''email'' = Some email \<and> email \<noteq> []
            \<and> CHR ''@'' \<in> set email)
         \<and> (\<forall>row. row_email row = [] \<or> CHR ''@'' \<notin> set (row_email row)
              \<longrightarrow> build_context row \<notin> set recipients)"
proof -
  from assms obtain rows where rows: "iter_sheet_rows workbook_path = Inr rows"
    and rec: "recipients = load_loop rows {} []"
    by (auto simp: load_recipients_def split: sum.splits)
  have valid: "\<exists>row. ctx = build_context row \<and> usable row" if "ctx \<in> set recipients" for ctx
    using that unfolding rec load_loop_first_seen by (auto simp: first_seen_def)
  have first: "\<forall>ctx \<in> set recipients. \<exists>email. map_of ctx ''email'' = Some email \<and> email \<noteq> []
      \<and> CHR ''@'' \<in> set email"
  proof
    fix ctx assume "ctx \<in> set recipients"
    then obtain row where "ctx = build_context row" and "usable row"
      using valid by blast
    then show "\<exists>email. map_of ctx ''email'' = Some email \<and> email \<noteq> [] \<and> CHR ''@'' \<in> set email"
      by (auto simp: build_context_email usable_def)
  qed
  have second: "build_context row \<notin> set recipients"
    if bad: "row_email row = [] \<or> CHR ''@'' \<notin> set (row_email row)" for row
  proof
    assume "build_context row \<in> set recipients"
    with first obtain email where "map_of (build_context row) ''email'' = Some email"
      and "email \<noteq> []" and "CHR ''@'' \<in> set email"
      by blast
    with bad show False by (simp add: build_context_email)
  qed
  from first second show ?thesis by blast
qed

text \<open>
  C7, as the code has it. Every header whose slug is not empty has its slug among the keys of
  the context; a header whose slug is empty adds nothing, and the empty string is never a
  key. A key of the fixed fields keeps its value. Any other key holds the stripped value of
  the first header of the row with that slug: a later header with the same slug does not
  replace it.
\<close>

theorem build_context_slug_keys:
  "(\<forall>kv \<in> set row. slugify (fst kv) \<noteq> [] \<longrightarrow> slugify (fst kv) \<in> fst ` set (build_context row))
   \<and> (map_of (fixed_context row) k = Some x \<longrightarrow> map_of (build_context row) k = Some x)
   \<and> (map_of (fixed_context row) k = None \<and> k \<noteq> [] \<longrightarrow>
        map_of (build_context row) k = map_of (slug_items row) k)
   \<and> (map_of (fixed_context row) k = None \<and> k \<noteq> [] \<and> row = before @ (header, v) # after
        \<and> slugify header = k \<and> k \<notin> set (map (\<lambda>kv. slugify (fst kv)) before) \<longrightarrow>
        map_of (build_context row) k = Some (py_strip v))
   \<and> [] \<notin> fst ` set (build_context row)"
proof -
  have none_empty: "map_of (build_context row) [] = None"
    by (simp add: map_of_build_context fixed_context_def)
  have keys: "slugify (fst kv) \<in> fst ` set (build_context row)"
    if "kv \<in> set row" and "slugify (fst kv) \<noteq> []" for kv
  proof -
    have "(slugify (fst kv), py_strip (snd kv)) \<in> set (slug_items row)"
      using that by (auto simp: slug_items_def)
    then have "map_of (slug_items row) (slugify (fst kv)) \<noteq> None"
      by (metis map_of_eq_None_iff image_eqI fst_conv)
    then have "map_of (build_context row) (slugify (fst kv)) \<noteq> None"
      using that by (auto simp: map_of_build_context split: option.splits)
    then show ?thesis
      by (simp add: map_of_eq_None_iff)
  qed
  have firstwins: "map_of (slug_items (before @ (header, v) # after)) (slugify header) = Some (py_strip v)"
    if "slugify header \<notin> set (map (\<lambda>kv. slugify (fst kv)) before)"
  proof -
    have "map_of (slug_items before) (slugify header) = None"
      using that by (force simp: slug_items_def map_of_eq_None_iff)
    then show ?thesis
      by (simp add: slug_items_def map_add_def)
  qed
  show ?thesis
    using keys none_empty firstwins
    by (auto simp: map_of_build_context map_of_eq_None_iff [symmetric] simp del: map_of_eq_None_iff)
qed

text \<open>
  The header \<open>#\<close> is no source of a fixed field and its slug is empty: the context has no
  key for it.
\<close>

theorem build_context_slug_keys_counterexample:
  "(''#'', ''1'') \<in> set [(''#'', ''1''), (''Email Perusahaan'', ''a@b.id'')]
   \<and> slugify ''#'' \<notin> fst ` set (build_context [(''#'', ''1''), (''Email Perusahaan'', ''a@b.id'')])"
  by code_simp


theorem build_context_fixed_fields_witness:
  "map_of (build_context [(''Rumah Sakit'', '' RS A''), (''Alamat (List)'', []),
      (''Alamat (Profile)'', ''Jl. Sudirman 1'')]) ''address'' = Some ''Jl. Sudirman 1''
   \<and> map_of (build_context [(''Rumah Sakit'', '' RS A''), (''Alamat (List)'', []),
      (''Alamat (Profile)'', ''Jl. Sudirman 1'')]) ''hospital'' = Some ''RS A''
   \<and> map_of (build_context [(''Rumah Sakit'', '' RS A''), (''Alamat (List)'', []),
      (''Alamat (Profile)'', ''Jl. Sudirman 1'')]) ''phone'' = Some []"
  using build_context_fixed_fields [of "[(''Rumah Sakit'', '' RS A''), (''Alamat (List)'', []),
      (''Alamat (Profile)'', ''Jl. Sudirman 1'')]"]
  by (simp add: py_strip_def strip_chars_def is_space_def)

theorem build_context_slug_keys_witness:
  "map_of (build_context [(''Kode RS'', '' 12 ''), (''kode-rs'', ''99''), (''Email'', ''zz''),
      (''Email Perusahaan'', ''a@b.id'')]) ''kode_rs'' = Some ''12''
   \<and> map_of (build_context [(''Kode RS'', '' 12 ''), (''kode-rs'', ''99''), (''Email'', ''zz''),
      (''Email Perusahaan'', ''a@b.id'')]) ''email'' = Some ''a@b.id''"
proof -
  let ?row = "[(''Kode RS'', '' 12 ''), (''kode-rs'', ''99''), (''Email'', ''zz''),
      (''Email Perusahaan'', ''a@b.id'')]"
  have slug: "slugify ''Kode RS'' = ''kode_rs''"
    by code_simp
  have strip: "py_strip '' 12 '' = ''12''" "py_strip ''a@b.id'' = ''a@b.id''"
    by code_simp+
  have free: "map_of (fixed_context ?row) ''kode_rs'' = None"
    and taken: "map_of (fixed_context ?row) ''email'' = Some ''a@b.id''"
    by (simp_all add: fixed_context_def strip)
  have first_header: "map_of (fixed_context ?row) ''kode_rs'' = None \<and> ''kode_rs'' \<noteq> []
      \<and> ?row = [] @ (''Kode RS'', '' 12 '') #
            [(''kode-rs'', ''99''), (''Email'', ''zz''), (''Email Perusahaan'', ''a@b.id'')]
      \<and> slugify ''Kode RS'' = ''kode_rs''
      \<and> ''kode_rs'' \<notin> set (map (\<lambda>kv. slugify (fst kv)) [])"
    by (simp add: free slug)
  have "map_of (build_context ?row) ''kode_rs'' = Some (py_strip '' 12 '')"
    using build_context_slug_keys [of ?row "''kode_rs''" _ "[]" "''Kode RS''" "'' 12 ''"
        "[(''kode-rs'', ''99''), (''Email'', ''zz''), (''Email Perusahaan'', ''a@b.id'')]"]
      first_header
    by blast
  moreover have "map_of (build_context ?row) ''email'' = Some ''a@b.id''"
    using build_context_slug_keys [of ?row "''email''" "''a@b.id''"] taken
    by blast
  ultimately show ?thesis
    by (simp add: strip)
qed


theorem recipient_email_valid_witness:
  "\<exists>recipients. load_recipients (Some example_workbook) = Inr recipients \<and> length recipients = 2
     \<and> (\<forall>ctx \<in> set recipients. \<exists>email. map_of ctx ''email'' = Some email \<and> email \<noteq> []
            \<and> CHR ''@'' \<in> set email)
     \<and> build_context (example_rows ! 2) \<notin> set recipients"
proof -
  have run: "load_recipients (Some example_workbook)
      = Inr [build_context (example_rows ! 0), build_context (example_rows ! 3)]"
    by code_simp
  have bad: "CHR ''@'' \<notin> set (row_email (example_rows ! 2))"
    by code_simp
  note fact = recipient_email_valid [OF run]
  have "build_context (example_rows ! 2)
      \<notin> set [build_context (example_rows ! 0), build_context (example_rows ! 3)]"
    using fact [THEN conjunct2, rule_format, of "example_rows ! 2"] bad by blast
  moreover have "length [build_context (example_rows ! 0), build_context (example_rows ! 3)] = 2"
    by simp
  ultimately show ?thesis
    using run fact [THEN conjunct1] by blast
qed

section \<open>The workbook reader: rows and columns\<close>























section \<open>The template engine: safe substitution\<close>



















section \<open>The sender: retries and the tally\<close>
























end
